theory Spec2Isabelle
  imports Main
begin

section \<open>Python values used by app.py\<close>

text \<open>
  The bodies that app.py stores and builds are the values produced by \<^verbatim>\<open>json.loads\<close>
  and consumed by \<^verbatim>\<open>JSONResponse\<close>: None, booleans, numbers, strings, lists and
  dicts with string keys. A dict is an association list in insertion order. A float is
  kept as its literal; app.py never computes with one. Characters stand for the code
  points U+0000 to U+00FF.
\<close>

datatype json =
    JNull
  | JBool bool
  | JInt int
  | JFloat string
  | JStr string
  | JList "json list"
  | JObj "(string \<times> json) list"

text \<open>
  Every \<^verbatim>\<open>raise\<close> of app.py and every exception of the Python operations it uses is
  a value. \<open>OtherError\<close> carries the class name of any further exception (those of
  the upstream clients).
\<close>

datatype error =
    HTTPException nat
  | JSONDecodeError
  | KeyError
  | IndexError
  | AttributeError
  | TypeError
  | OtherError string

subsection \<open>Strings\<close>

text \<open>\<^verbatim>\<open>str.isspace\<close> on one character, for the code points below 256.\<close>

definition isspace :: "char \<Rightarrow> bool" where
  "isspace c = (c \<in> set [CHR 0x09, CHR 0x0A, CHR 0x0B, CHR 0x0C, CHR 0x0D,
                          CHR 0x1C, CHR 0x1D, CHR 0x1E, CHR 0x1F, CHR 0x20,
                          CHR 0x85, CHR 0xA0])"

text \<open>
  \<^verbatim>\<open>s.split()\<close> without arguments: the maximal runs of characters that are not
  whitespace. The first argument is the run read so far.
\<close>

fun split_run :: "string \<Rightarrow> string \<Rightarrow> string list" where
  "split_run w [] = (if w = [] then [] else [w])"
| "split_run w (c # cs) =
     (if isspace c then (if w = [] then split_run [] cs else w # split_run [] cs)
      else split_run (w @ [c]) cs)"

definition str_split :: "string \<Rightarrow> string list" where
  "str_split s = split_run [] s"

text \<open>\<^verbatim>\<open>s.strip()\<close> without arguments.\<close>

definition str_strip :: "string \<Rightarrow> string" where
  "str_strip s = rev (dropWhile isspace (rev (dropWhile isspace s)))"

text \<open>\<^verbatim>\<open>s.lower()\<close>, for the code points below 256.\<close>

definition lower_char :: "char \<Rightarrow> char" where
  "lower_char c =
     (let n = (of_char c :: nat)
      in if 65 \<le> n \<and> n \<le> 90 then char_of (n + 32)
         else if n = 215 then c
         else if 192 \<le> n \<and> n \<le> 222 then char_of (n + 32)
         else c)"

definition str_lower :: "string \<Rightarrow> string" where
  "str_lower s = map lower_char s"

subsection \<open>Dicts\<close>

text \<open>\<^verbatim>\<open>d.get(k, default)\<close>.\<close>

definition dict_get :: "(string \<times> json) list \<Rightarrow> string \<Rightarrow> json \<Rightarrow> json" where
  "dict_get d k dflt = (case map_of d k of None \<Rightarrow> dflt | Some v \<Rightarrow> v)"

text \<open>
  \<^verbatim>\<open>d[k] = v\<close>: the value of an existing key is replaced where it stands, a new key
  is appended.
\<close>

fun dict_set :: "('k \<times> 'v) list \<Rightarrow> 'k \<Rightarrow> 'v \<Rightarrow> ('k \<times> 'v) list" where
  "dict_set [] k v = [(k, v)]"
| "dict_set (p # ps) k v = (if fst p = k then (k, v) # ps else p # dict_set ps k v)"

text \<open>\<^verbatim>\<open>for m in x\<close>: the elements Python iterates over, or TypeError.\<close>

fun py_iter :: "json \<Rightarrow> error + json list" where
  "py_iter (JList xs) = Inr xs"
| "py_iter (JObj d) = Inr (map (\<lambda>p. JStr (fst p)) d)"
| "py_iter (JStr s) = Inr (map (\<lambda>c. JStr [c]) s)"
| "py_iter JNull = Inl TypeError"
| "py_iter (JBool b) = Inl TypeError"
| "py_iter (JInt i) = Inl TypeError"
| "py_iter (JFloat f) = Inl TypeError"

text \<open>
  Reading a response the way the spec writes it, \<^verbatim>\<open>r["choices"][0]["message"]\<close>:
  \<open>None\<close> where Python raises KeyError, IndexError or TypeError.
\<close>

datatype sel = Key string | Idx nat

fun getitem :: "json \<Rightarrow> sel \<Rightarrow> json option" where
  "getitem (JObj d) (Key k) = map_of d k"
| "getitem (JList xs) (Idx i) = (if i < length xs then Some (xs ! i) else None)"
| "getitem j s = None"

fun getpath :: "json \<Rightarrow> sel list \<Rightarrow> json option" where
  "getpath j [] = Some j"
| "getpath j (s # ss) = (case getitem j s of None \<Rightarrow> None | Some j' \<Rightarrow> getpath j' ss)"

section \<open>The pending request store\<close>

text \<open>
  \<^verbatim>\<open>class ChatCompletionRequest(BaseModel)\<close>: the intercepted body and the response,
  None until a submission sets it. \<^verbatim>\<open>open_requests\<close> is the module's dict from
  request id to entry.
\<close>

record ChatCompletionRequest =
  request :: json
  response :: "json option"

type_synonym store = "string \<rightharpoonup> ChatCompletionRequest"

section \<open>HTTP responses\<close>

text \<open>
  The review page is the template of \<^verbatim>\<open>get_request\<close> with its holes: the payload
  given to \<^verbatim>\<open>json.dumps\<close>, the id of the form's action, which option is selected
  (Content when \<^verbatim>\<open>not tool_name\<close>), and the three drafted fields.
\<close>

record review_page =
  page_request :: json
  page_request_id :: string
  page_content_selected :: bool
  page_content :: string
  page_tool_name :: string
  page_tool_arguments :: string

text \<open>
  \<open>StreamingResponse\<close> holds the chunks of its iterator, the status code and the
  headers.
\<close>

datatype http_response =
    JSONResponse json
  | RedirectResponse string
  | HTMLResponse review_page
  | StreamingResponse "string list" nat "(string \<times> string) list"

text \<open>
  The status the client sees: FastAPI answers an \<open>HTTPException\<close> with its status
  code and any other exception leaving a handler with 500; the response classes have
  their default codes.
\<close>

fun status_code :: "error + http_response \<Rightarrow> nat" where
  "status_code (Inl (HTTPException n)) = n"
| "status_code (Inl e) = 500"
| "status_code (Inr (JSONResponse j)) = 200"
| "status_code (Inr (RedirectResponse u)) = 307"
| "status_code (Inr (HTMLResponse p)) = 200"
| "status_code (Inr (StreamingResponse cs n hs)) = n"

definition is_client_error :: "nat \<Rightarrow> bool" where
  "is_client_error n = (400 \<le> n \<and> n < 500)"

section \<open>POST /v1/chat/completions\<close>

text \<open>
  The polling loop and the two statements after it. Each \<^verbatim>\<open>await asyncio.sleep(1)\<close>
  lets the other handlers run; the schedule lists what they do to the store during each
  sleep. The loop has no bound of its own: when the schedule ends with the entry still
  unresolved the call has not returned, which is \<open>None\<close>.
  Leaving the loop, \<^verbatim>\<open>open_requests[request_id]\<close> raises KeyError when the id is not in
  the store.
\<close>

fun waiter :: "string \<Rightarrow> (store \<Rightarrow> store) list \<Rightarrow> store \<Rightarrow> (store \<times> (error + json)) option" where
  "waiter request_id sched s =
     (case s request_id of
        None \<Rightarrow> Some (s, Inl KeyError)
      | Some entry \<Rightarrow>
          (case response entry of
             Some r \<Rightarrow> Some (s(request_id := None), Inr r)
           | None \<Rightarrow>
               (case sched of
                  [] \<Rightarrow> None
                | f # fs \<Rightarrow> waiter request_id fs (f s))))"

declare waiter.simps [simp del]

text \<open>
  \<open>request_id\<close> is the value of \<^verbatim>\<open>str(uuid.uuid4())\<close> and \<open>body\<close> the outcome of
  \<^verbatim>\<open>await request.json()\<close>, an exception when the body is not JSON.
\<close>

definition chat_completions ::
  "string \<Rightarrow> error + json \<Rightarrow> (store \<Rightarrow> store) list \<Rightarrow> store
     \<Rightarrow> (store \<times> (error + http_response)) option" where
  "chat_completions request_id body sched s =
     (case body of
        Inl e \<Rightarrow> Some (s, Inl e)
      | Inr req \<Rightarrow>
          (case waiter request_id sched
                  (s(request_id \<mapsto> \<lparr>request = req, response = None\<rparr>)) of
             None \<Rightarrow> None
           | Some (s', Inl e) \<Rightarrow> Some (s', Inl e)
           | Some (s', Inr r) \<Rightarrow> Some (s', Inr (JSONResponse r))))"

section \<open>The passthrough proxy\<close>

text \<open>
  What \<^verbatim>\<open>proxy_to_openai\<close> reads of the incoming request. \<open>req_headers\<close> is
  \<^verbatim>\<open>request.headers.items()\<close>: every header line of the request in order, a name
  that the client sent twice being there twice.
\<close>

record proxy_request =
  req_method :: string
  req_query :: string
  req_headers :: "(string \<times> string) list"
  req_body :: string

text \<open>The arguments of \<^verbatim>\<open>proxy_client.build_request\<close>; \<open>up_headers\<close> is a dict.\<close>

record upstream_request =
  up_method :: string
  up_path :: string
  up_query :: string
  up_headers :: "(string \<times> string) list"
  up_content :: string

text \<open>
  What the handler reads of the upstream response: \<^verbatim>\<open>status_code\<close>,
  \<^verbatim>\<open>headers\<close> and the chunks of \<^verbatim>\<open>aiter_raw()\<close>.
\<close>

record upstream_response =
  resp_status :: nat
  resp_headers :: "(string \<times> string) list"
  resp_chunks :: "string list"

text \<open>
  The dict comprehension of \<^verbatim>\<open>proxy_to_openai\<close>: the items are stored one by one,
  so a later item replaces the value of an earlier one with the same key.
\<close>

definition forward_headers :: "(string \<times> string) list \<Rightarrow> (string \<times> string) list" where
  "forward_headers items =
     foldl (\<lambda>d p. dict_set d (fst p) (snd p)) []
       (filter (\<lambda>p. str_lower (fst p) \<noteq> ''host'') items)"

text \<open>
  \<open>send\<close> is \<^verbatim>\<open>proxy_client.send(rp_req, stream=True)\<close>, the upstream service seen
  from the handler; its exceptions leave the handler.
\<close>

definition proxy_to_openai ::
  "(upstream_request \<Rightarrow> error + upstream_response) \<Rightarrow> proxy_request \<Rightarrow> string
     \<Rightarrow> error + http_response" where
  "proxy_to_openai send req path =
     (let rp_req = \<lparr>up_method = req_method req, up_path = path, up_query = req_query req,
                     up_headers = forward_headers (req_headers req),
                     up_content = req_body req\<rparr>
      in case send rp_req of
           Inl e \<Rightarrow> Inl e
         | Inr rp_resp \<Rightarrow>
             Inr (StreamingResponse (resp_chunks rp_resp) (resp_status rp_resp)
                    (resp_headers rp_resp)))"

section \<open>GET /r/{request_id}\<close>

text \<open>
  \<^verbatim>\<open>"k" in x\<close> for a string \<open>k\<close>: key of a dict, element of a list, substring of
  a string, TypeError for the values that are no containers.
\<close>

fun is_substring :: "string \<Rightarrow> string \<Rightarrow> bool" where
  "is_substring k [] = (k = [])"
| "is_substring k (c # cs) = (take (length k) (c # cs) = k \<or> is_substring k cs)"

fun py_in :: "string \<Rightarrow> json \<Rightarrow> error + bool" where
  "py_in k (JObj d) = Inr (map_of d k \<noteq> None)"
| "py_in k (JList xs) = Inr (JStr k \<in> set xs)"
| "py_in k (JStr s) = Inr (is_substring k s)"
| "py_in k JNull = Inl TypeError"
| "py_in k (JBool b) = Inl TypeError"
| "py_in k (JInt i) = Inl TypeError"
| "py_in k (JFloat f) = Inl TypeError"

text \<open>\<^verbatim>\<open>x["k"]\<close> for a string \<open>k\<close>.\<close>

fun py_index :: "json \<Rightarrow> string \<Rightarrow> error + json" where
  "py_index (JObj d) k = (case map_of d k of None \<Rightarrow> Inl KeyError | Some v \<Rightarrow> Inr v)"
| "py_index j k = Inl TypeError"

text \<open>One \<^verbatim>\<open>if "k" in request.request: kwargs["k"] = request.request["k"]\<close>.\<close>

definition copy_field ::
  "json \<Rightarrow> string \<Rightarrow> (string \<times> json) list \<Rightarrow> error + (string \<times> json) list" where
  "copy_field req k kwargs =
     (case py_in k req of
        Inl e \<Rightarrow> Inl e
      | Inr False \<Rightarrow> Inr kwargs
      | Inr True \<Rightarrow> (case py_index req k of Inl e \<Rightarrow> Inl e | Inr v \<Rightarrow> Inr (dict_set kwargs k v)))"

definition build_kwargs :: "json \<Rightarrow> error + (string \<times> json) list" where
  "build_kwargs req =
     (case copy_field req ''messages'' [] of
        Inl e \<Rightarrow> Inl e
      | Inr k1 \<Rightarrow>
          (case copy_field req ''tools'' k1 of
             Inl e \<Rightarrow> Inl e
           | Inr k2 \<Rightarrow> copy_field req ''tool_choice'' k2))"

text \<open>
  What the handler reads of the object returned by
  \<^verbatim>\<open>openai_client.chat.completions.create\<close>: the messages of the choices, each with
  its content and its tool calls (function name and arguments), both optional.
\<close>

datatype tool_call = ToolCall string string

datatype chat_message = ChatMessage "string option" "tool_call list option"

datatype chat_completion = ChatCompletion "chat_message list"

text \<open>
  The \<^verbatim>\<open>try\<close> block: the three fields start empty, and any exception (of the call, or
  the IndexError of \<^verbatim>\<open>choices[0]\<close>) leaves them so. The result is
  \<open>(content, tool_name, tool_arguments)\<close>.
\<close>

fun draft :: "error + chat_completion \<Rightarrow> string \<times> string \<times> string" where
  "draft (Inl e) = ([], [], [])"
| "draft (Inr (ChatCompletion [])) = ([], [], [])"
| "draft (Inr (ChatCompletion (ChatMessage c (Some (ToolCall n a # tcs)) # chs))) = ([], n, a)"
| "draft (Inr (ChatCompletion (ChatMessage None tcs # chs))) = ([], [], [])"
| "draft (Inr (ChatCompletion (ChatMessage (Some c) tcs # chs))) =
     ((if c \<noteq> [] then str_strip c else []), [], [])"

text \<open>
  \<open>create\<close> is the upstream call, given the keyword arguments besides the model.
\<close>

definition get_request ::
  "((string \<times> json) list \<Rightarrow> error + chat_completion) \<Rightarrow> string \<Rightarrow> store
     \<Rightarrow> store \<times> (error + http_response)" where
  "get_request create request_id s =
     (case s request_id of
        None \<Rightarrow> (s, Inl (HTTPException 404))
      | Some entry \<Rightarrow>
          (case build_kwargs (request entry) of
             Inl e \<Rightarrow> (s, Inl e)
           | Inr kwargs \<Rightarrow>
               (case draft (create kwargs) of
                  (content, tool_name, tool_arguments) \<Rightarrow>
                    (s, Inr (HTMLResponse
                       \<lparr>page_request = request entry, page_request_id = request_id,
                        page_content_selected = (tool_name = []),
                        page_content = content, page_tool_name = tool_name,
                        page_tool_arguments = tool_arguments\<rparr>)))))"

section \<open>POST /r/{request_id}\<close>

text \<open>\<^verbatim>\<open>len(m.get("content", "").split())\<close> for one element of the messages.\<close>

fun content_tokens :: "json \<Rightarrow> error + nat" where
  "content_tokens (JObj d) =
     (case dict_get d ''content'' (JStr []) of
        JStr t \<Rightarrow> Inr (length (str_split t))
      | v \<Rightarrow> Inl AttributeError)"
| "content_tokens j = Inl AttributeError"

text \<open>\<^verbatim>\<open>sum(... for m in ...)\<close>: the first exception ends the sum.\<close>

fun sum_tokens :: "json list \<Rightarrow> error + nat" where
  "sum_tokens [] = Inr 0"
| "sum_tokens (m # ms) =
     (case content_tokens m of
        Inl e \<Rightarrow> Inl e
      | Inr n \<Rightarrow> (case sum_tokens ms of Inl e \<Rightarrow> Inl e | Inr k \<Rightarrow> Inr (n + k)))"

definition prompt_tokens :: "(string \<times> json) list \<Rightarrow> error + nat" where
  "prompt_tokens d =
     (case py_iter (dict_get d ''messages'' (JList [])) of
        Inl e \<Rightarrow> Inl e
      | Inr ms \<Rightarrow> sum_tokens ms)"

text \<open>
  The response dict once the handler has filled it: \<open>message\<close> is the dict of
  \<^verbatim>\<open>choices[0]["message"]\<close>, \<open>p\<close> and \<open>c\<close> the prompt and completion tokens.
\<close>

definition completion ::
  "string \<Rightarrow> int \<Rightarrow> json \<Rightarrow> (string \<times> json) list \<Rightarrow> nat \<Rightarrow> nat \<Rightarrow> json" where
  "completion request_id now model message p c =
     JObj [(''id'', JStr (''chatcmpl-'' @ request_id)),
           (''object'', JStr ''chat.completion''),
           (''created'', JInt now),
           (''model'', model),
           (''choices'', JList [JObj [(''index'', JInt 0), (''message'', JObj message),
                                      (''finish_reason'', JStr ''stop'')]]),
           (''usage'',
              JObj (dict_set
                     (dict_set [(''prompt_tokens'', JInt (int p)),
                                (''completion_tokens'', JInt 0), (''total_tokens'', JInt 0)]
                        ''completion_tokens'' (JInt (int c)))
                     ''total_tokens'' (JInt (int p + int c))))]"

text \<open>
  The body of \<^verbatim>\<open>modify_request\<close> between the lookup and the store: \<open>now\<close> is
  \<^verbatim>\<open>int(time.time())\<close>, \<open>call_uuid\<close> is \<^verbatim>\<open>uuid.uuid4()\<close> as a string, and a form
  field that was not sent is \<open>None\<close>. \<^verbatim>\<open>request.request.get\<close> needs a dict, and
  \<^verbatim>\<open>.split()\<close> a string: AttributeError otherwise.
\<close>

definition build_response ::
  "int \<Rightarrow> string \<Rightarrow> string \<Rightarrow> json \<Rightarrow> string \<Rightarrow> string option \<Rightarrow> string option
     \<Rightarrow> string option \<Rightarrow> error + json" where
  "build_response now call_uuid request_id req response_type content tool_name tool_arguments =
     (case req of
        JObj d \<Rightarrow>
          (let model = dict_get d ''model'' (JStr ''gpt-3.5-turbo'')
           in case prompt_tokens d of
                Inl e \<Rightarrow> Inl e
              | Inr p \<Rightarrow>
                  (if response_type = ''content'' then
                     (case content of
                        None \<Rightarrow> Inl AttributeError
                      | Some c \<Rightarrow>
                          Inr (completion request_id now model
                                 (dict_set [] ''content'' (JStr c)) p (length (str_split c))))
                   else
                     (case tool_name of
                        None \<Rightarrow> Inl AttributeError
                      | Some tn \<Rightarrow>
                          (case tool_arguments of
                             None \<Rightarrow> Inl AttributeError
                           | Some ta \<Rightarrow>
                               Inr (completion request_id now model
                                      (dict_set
                                         (dict_set [] ''tool_calls''
                                            (JList [JObj [(''id'', JStr (''call_'' @ call_uuid)),
                                                          (''type'', JStr ''function''),
                                                          (''function'',
                                                             JObj [(''name'', JStr tn),
                                                                   (''arguments'', JStr ta)])]]))
                                         ''content'' JNull)
                                      p (length (str_split tn) + length (str_split ta)))))))
      | other \<Rightarrow> Inl AttributeError)"

definition modify_request ::
  "int \<Rightarrow> string \<Rightarrow> string \<Rightarrow> string \<Rightarrow> string option \<Rightarrow> string option \<Rightarrow> string option
     \<Rightarrow> store \<Rightarrow> store \<times> (error + http_response)" where
  "modify_request now call_uuid request_id response_type content tool_name tool_arguments s =
     (case s request_id of
        None \<Rightarrow> (s, Inl (HTTPException 404))
      | Some entry \<Rightarrow>
          (case build_response now call_uuid request_id (request entry) response_type
                  content tool_name tool_arguments of
             Inl e \<Rightarrow> (s, Inl e)
           | Inr r \<Rightarrow>
               (s(request_id \<mapsto> entry\<lparr>response := Some r\<rparr>), Inr (RedirectResponse ''/''))))"

section \<open>Example inputs\<close>

text \<open>
  A chat-completion body with a model and one user message, its pending entry, and the
  store that holds it under the id \<open>r1\<close>.
\<close>

definition example_payload :: json where
  "example_payload =
     JObj [(''model'', JStr ''gpt-4''),
           (''messages'', JList [JObj [(''role'', JStr ''user''), (''content'', JStr ''hi'')]])]"

definition example_entry :: ChatCompletionRequest where
  "example_entry = \<lparr>request = example_payload, response = None\<rparr>"

definition example_store :: store where
  "example_store = Map.empty(''r1'' \<mapsto> example_entry)"

text \<open>Two submissions for \<open>r1\<close>, one after the other, with no interception consuming the entry between them.\<close>

definition first_resolve :: "store \<times> (error + http_response)" where
  "first_resolve = modify_request 1 ''u1'' ''r1'' ''content'' (Some ''first'') None None example_store"

definition second_resolve :: "store \<times> (error + http_response)" where
  "second_resolve =
     modify_request 2 ''u2'' ''r1'' ''content'' (Some ''second one'') None None (fst first_resolve)"

text \<open>
  What a submission does to the store while a waiter sleeps: the assignment that ends
  \<^verbatim>\<open>modify_request\<close>.
\<close>

definition resolve_entry :: "string \<Rightarrow> json \<Rightarrow> store \<Rightarrow> store" where
  "resolve_entry request_id r s =
     (case s request_id of None \<Rightarrow> s | Some entry \<Rightarrow> s(request_id \<mapsto> entry\<lparr>response := Some r\<rparr>))"

definition example_result :: json where
  "example_result = JObj [(''id'', JStr ''chatcmpl-r1'')]"

text \<open>The store after an interception under \<open>r1\<close> was resolved and its waiter returned.\<close>

definition consumed_store :: store where
  "consumed_store =
     fst (the (chat_completions ''r1'' (Inr example_payload)
                 [resolve_entry ''r1'' example_result] Map.empty))"

text \<open>
  An upstream that answers 200 and sends back the headers and the body it received, and
  a request whose client sent the header \<open>accept\<close> twice.
\<close>

definition echo_upstream :: "upstream_request \<Rightarrow> error + upstream_response" where
  "echo_upstream rq =
     Inr \<lparr>resp_status = 200, resp_headers = up_headers rq, resp_chunks = [up_content rq]\<rparr>"

definition example_proxy_request :: proxy_request where
  "example_proxy_request =
     \<lparr>req_method = ''GET'', req_query = [],
      req_headers = [(''host'', ''localhost:8000''), (''accept'', ''text/plain''),
                     (''accept'', ''application/json'')],
      req_body = []\<rparr>"

text \<open>
  The tool arguments of the spec's example: an opening brace, the key \<open>q\<close> and the value
  \<open>x\<close>, each between double quotes (\<open>CHR 0x22\<close>) and separated by a colon, a closing brace.
\<close>

definition example_arguments :: string where
  "example_arguments =
     [CHR ''{'', CHR 0x22, CHR ''q'', CHR 0x22, CHR '':'', CHR 0x22, CHR ''x'', CHR 0x22, CHR ''}'']"

text \<open>An upstream draft call that always fails.\<close>

definition failing_create :: "(string \<times> json) list \<Rightarrow> error + chat_completion" where
  "failing_create kwargs = Inl (OtherError ''APIConnectionError'')"

section \<open>Properties\<close>

subsection \<open>Building and storing a response\<close>

lemma build_response_content:
  "prompt_tokens d = Inr p \<Longrightarrow>
   build_response now u rid (JObj d) ''content'' (Some c) tn ta =
     Inr (completion rid now (dict_get d ''model'' (JStr ''gpt-3.5-turbo''))
            [(''content'', JStr c)] p (length (str_split c)))"
  by (simp add: build_response_def)

lemma build_response_tool:
  "rt \<noteq> ''content'' \<Longrightarrow> prompt_tokens d = Inr p \<Longrightarrow>
   build_response now u rid (JObj d) rt c (Some tn) (Some ta) =
     Inr (completion rid now (dict_get d ''model'' (JStr ''gpt-3.5-turbo''))
            [(''tool_calls'',
                JList [JObj [(''id'', JStr (''call_'' @ u)), (''type'', JStr ''function''),
                             (''function'', JObj [(''name'', JStr tn), (''arguments'', JStr ta)])]]),
             (''content'', JNull)]
            p (length (str_split tn) + length (str_split ta)))"
  by (simp add: build_response_def)

lemma build_response_InrD:
  assumes "build_response now u rid req rt c tn ta = Inr r"
  shows "\<exists>d msg p k. req = JObj d \<and>
           r = completion rid now (dict_get d ''model'' (JStr ''gpt-3.5-turbo'')) msg p k"
  using assms
  by (auto simp: build_response_def Let_def split: json.splits sum.splits if_splits option.splits)

lemma build_response_rt:
  "rt \<noteq> ''content'' \<Longrightarrow>
   build_response now u rid req rt c tn ta = build_response now u rid req ''tool_call'' c tn ta"
  by (simp add: build_response_def Let_def split: json.splits sum.splits)

lemma modify_request_success:
  "s rid = Some entry \<Longrightarrow> build_response now u rid (request entry) rt c tn ta = Inr r \<Longrightarrow>
   modify_request now u rid rt c tn ta s =
     (s(rid \<mapsto> entry\<lparr>response := Some r\<rparr>), Inr (RedirectResponse ''/''))"
  by (simp add: modify_request_def)

lemma modify_request_InrD:
  assumes "modify_request now u rid rt c tn ta s = (s', Inr resp)"
  shows "\<exists>entry r. s rid = Some entry \<and>
           build_response now u rid (request entry) rt c tn ta = Inr r \<and>
           s' = s(rid \<mapsto> entry\<lparr>response := Some r\<rparr>) \<and> resp = RedirectResponse ''/''"
  using assms by (auto simp: modify_request_def split: option.splits sum.splits)

lemma sum_tokens_contents:
  "sum_tokens (map (\<lambda>t. JObj [(''role'', JStr ''user''), (''content'', JStr t)]) ts) =
     Inr (sum_list (map (\<lambda>t. length (str_split t)) ts))"
  by (induction ts) (simp_all add: dict_get_def)

lemma prompt_tokens_example:
  "map_of m ''content'' = Some (JStr ''hi'') \<Longrightarrow> map_of d ''messages'' = Some (JList [JObj m]) \<Longrightarrow>
   prompt_tokens d = Inr 1"
  by (simp add: prompt_tokens_def dict_get_def str_split_def isspace_def)

subsection \<open>Resolving an entry twice\<close>

text \<open>
  C1, as stated, fails. The entry \<open>r1\<close> is resolved by a first submission and not yet
  consumed; a second submission for \<open>r1\<close> is answered with the same redirect, not with
  an error, and the response stored afterwards is no longer the one of the first call.
\<close>

theorem resolve_twice_counterexample:
  "snd first_resolve = Inr (RedirectResponse ''/'') \<and>
   snd second_resolve = Inr (RedirectResponse ''/'') \<and>
   map_option response (fst first_resolve ''r1'') \<noteq> None \<and>
   map_option response (fst first_resolve ''r1'') \<noteq> Some None \<and>
   map_option response (fst second_resolve ''r1'') \<noteq> map_option response (fst first_resolve ''r1'')"
  by (simp add: first_resolve_def second_resolve_def modify_request_def example_store_def
      example_entry_def example_payload_def build_response_def prompt_tokens_def dict_get_def
      str_split_def isspace_def completion_def)

text \<open>
  C1, amended: \<^verbatim>\<open>modify_request\<close> does not look at the entry's response before it
  assigns. Whenever two submissions for the id of a stored entry can each build their
  response, both are answered with the redirect to \<open>/\<close>; after the first the entry
  holds the first response, after the second it holds the second response.
\<close>

theorem resolve_overwrites:
  assumes "s rid = Some entry"
    and "build_response n1 u1 rid (request entry) rt1 c1 tn1 ta1 = Inr r1"
    and "build_response n2 u2 rid (request entry) rt2 c2 tn2 ta2 = Inr r2"
    and "modify_request n1 u1 rid rt1 c1 tn1 ta1 s = (s1, out1)"
    and "modify_request n2 u2 rid rt2 c2 tn2 ta2 s1 = (s2, out2)"
  shows "out1 = Inr (RedirectResponse ''/'') \<and> s1 rid = Some (entry\<lparr>response := Some r1\<rparr>) \<and>
         out2 = Inr (RedirectResponse ''/'') \<and> s2 rid = Some (entry\<lparr>response := Some r2\<rparr>)"
proof -
  from assms(1,2,4) have first: "s1 = s(rid \<mapsto> entry\<lparr>response := Some r1\<rparr>)"
    "out1 = Inr (RedirectResponse ''/'')"
    by (simp_all add: modify_request_success)
  from first(1) have "s1 rid = Some (entry\<lparr>response := Some r1\<rparr>)" by simp
  moreover have "build_response n2 u2 rid (request (entry\<lparr>response := Some r1\<rparr>)) rt2 c2 tn2 ta2 = Inr r2"
    using assms(3) by simp
  ultimately have "modify_request n2 u2 rid rt2 c2 tn2 ta2 s1 =
      (s1(rid \<mapsto> entry\<lparr>response := Some r1\<rparr>\<lparr>response := Some r2\<rparr>), Inr (RedirectResponse ''/''))"
    by (rule modify_request_success)
  with assms(5) have "s2 = s1(rid \<mapsto> entry\<lparr>response := Some r2\<rparr>)" "out2 = Inr (RedirectResponse ''/'')"
    by simp_all
  with first show ?thesis by simp
qed

theorem resolve_overwrites_witness:
  "example_store ''r1'' = Some example_entry \<and>
   build_response 1 ''u1'' ''r1'' (request example_entry) ''content'' (Some ''first'') None None =
     Inr (completion ''r1'' 1 (JStr ''gpt-4'') [(''content'', JStr ''first'')] 1 1) \<and>
   build_response 2 ''u2'' ''r1'' (request example_entry) ''content'' (Some ''second one'') None None =
     Inr (completion ''r1'' 2 (JStr ''gpt-4'') [(''content'', JStr ''second one'')] 1 2) \<and>
   snd first_resolve = Inr (RedirectResponse ''/'') \<and>
   snd second_resolve = Inr (RedirectResponse ''/'') \<and>
   fst second_resolve ''r1'' =
     Some (example_entry\<lparr>response :=
        Some (completion ''r1'' 2 (JStr ''gpt-4'') [(''content'', JStr ''second one'')] 1 2)\<rparr>)"
proof -
  have h1: "example_store ''r1'' = Some example_entry"
    by (simp add: example_store_def)
  have h2: "build_response 1 ''u1'' ''r1'' (request example_entry) ''content'' (Some ''first'') None None =
     Inr (completion ''r1'' 1 (JStr ''gpt-4'') [(''content'', JStr ''first'')] 1 1)"
    by (simp add: example_entry_def example_payload_def build_response_def prompt_tokens_def
        dict_get_def str_split_def isspace_def)
  have h3: "build_response 2 ''u2'' ''r1'' (request example_entry) ''content'' (Some ''second one'') None None =
     Inr (completion ''r1'' 2 (JStr ''gpt-4'') [(''content'', JStr ''second one'')] 1 2)"
    by (simp add: example_entry_def example_payload_def build_response_def prompt_tokens_def
        dict_get_def str_split_def isspace_def numeral_2_eq_2)
  have h4: "modify_request 1 ''u1'' ''r1'' ''content'' (Some ''first'') None None example_store =
      (fst first_resolve, snd first_resolve)"
    by (simp add: first_resolve_def)
  have h5: "modify_request 2 ''u2'' ''r1'' ''content'' (Some ''second one'') None None (fst first_resolve) =
      (fst second_resolve, snd second_resolve)"
    by (simp add: second_resolve_def)
  from resolve_overwrites [OF h1 h2 h3 h4 h5] h1 h2 h3 show ?thesis by blast
qed

subsection \<open>The content round trip\<close>

text \<open>
  C2: the entry's payload has as its messages one message whose content is \<open>hi\<close>, and
  the submission has response type \<open>content\<close> and content \<open>hello world\<close>. The
  submission is accepted, and the stored response has that content at
  \<open>choices[0].message.content\<close>, no \<open>tool_calls\<close> key in the message, 1 prompt token,
  2 completion tokens and 3 total tokens.
\<close>

theorem content_round_trip:
  assumes "s rid = Some entry"
    and "request entry = JObj d"
    and "map_of d ''messages'' = Some (JList [JObj m])"
    and "map_of m ''content'' = Some (JStr ''hi'')"
  shows "\<exists>r. modify_request now u rid ''content'' (Some ''hello world'') tn ta s =
               (s(rid \<mapsto> entry\<lparr>response := Some r\<rparr>), Inr (RedirectResponse ''/'')) \<and>
             getpath r [Key ''choices'', Idx 0, Key ''message'', Key ''content''] =
               Some (JStr ''hello world'') \<and>
             getpath r [Key ''choices'', Idx 0, Key ''message'', Key ''tool_calls''] = None \<and>
             getpath r [Key ''usage'', Key ''prompt_tokens''] = Some (JInt 1) \<and>
             getpath r [Key ''usage'', Key ''completion_tokens''] = Some (JInt 2) \<and>
             getpath r [Key ''usage'', Key ''total_tokens''] = Some (JInt 3)"
proof -
  have p: "prompt_tokens d = Inr 1"
    using assms(3,4) by (rule prompt_tokens_example [rotated])
  have c: "length (str_split ''hello world'') = 2"
    by (simp add: str_split_def isspace_def)
  let ?r = "completion rid now (dict_get d ''model'' (JStr ''gpt-3.5-turbo''))
              [(''content'', JStr ''hello world'')] 1 2"
  have "build_response now u rid (request entry) ''content'' (Some ''hello world'') tn ta = Inr ?r"
    using build_response_content [OF p, of now u rid "''hello world''" tn ta] assms(2) c by simp
  with assms(1) have "modify_request now u rid ''content'' (Some ''hello world'') tn ta s =
      (s(rid \<mapsto> entry\<lparr>response := Some ?r\<rparr>), Inr (RedirectResponse ''/''))"
    by (rule modify_request_success)
  moreover have "getpath ?r [Key ''choices'', Idx 0, Key ''message'', Key ''content''] =
      Some (JStr ''hello world'')"
    by (simp add: completion_def)
  moreover have "getpath ?r [Key ''choices'', Idx 0, Key ''message'', Key ''tool_calls''] = None"
    by (simp add: completion_def)
  moreover have "getpath ?r [Key ''usage'', Key ''prompt_tokens''] = Some (JInt 1)"
    "getpath ?r [Key ''usage'', Key ''completion_tokens''] = Some (JInt 2)"
    "getpath ?r [Key ''usage'', Key ''total_tokens''] = Some (JInt 3)"
    by (simp_all add: completion_def)
  ultimately show ?thesis by blast
qed

theorem content_round_trip_witness:
  "example_store ''r1'' = Some example_entry \<and>
   request example_entry =
     JObj [(''model'', JStr ''gpt-4''),
           (''messages'', JList [JObj [(''role'', JStr ''user''), (''content'', JStr ''hi'')]])] \<and>
   (\<exists>r. modify_request 7 ''u'' ''r1'' ''content'' (Some ''hello world'') None None example_store =
           (example_store(''r1'' \<mapsto> example_entry\<lparr>response := Some r\<rparr>),
            Inr (RedirectResponse ''/'')) \<and>
         getpath r [Key ''choices'', Idx 0, Key ''message'', Key ''content''] =
           Some (JStr ''hello world'') \<and>
         getpath r [Key ''choices'', Idx 0, Key ''message'', Key ''tool_calls''] = None \<and>
         getpath r [Key ''usage'', Key ''prompt_tokens''] = Some (JInt 1) \<and>
         getpath r [Key ''usage'', Key ''completion_tokens''] = Some (JInt 2) \<and>
         getpath r [Key ''usage'', Key ''total_tokens''] = Some (JInt 3))"
proof -
  have h1: "example_store ''r1'' = Some example_entry"
    by (simp add: example_store_def)
  have h2: "request example_entry =
     JObj [(''model'', JStr ''gpt-4''),
           (''messages'', JList [JObj [(''role'', JStr ''user''), (''content'', JStr ''hi'')]])]"
    by (simp add: example_entry_def example_payload_def)
  have h3: "map_of [(''model'', JStr ''gpt-4''),
           (''messages'', JList [JObj [(''role'', JStr ''user''), (''content'', JStr ''hi'')]])]
        ''messages'' = Some (JList [JObj [(''role'', JStr ''user''), (''content'', JStr ''hi'')]])"
    by simp
  have h4: "map_of [(''role'', JStr ''user''), (''content'', JStr ''hi'')] ''content'' = Some (JStr ''hi'')"
    by simp
  from content_round_trip [where s = example_store and rid = "''r1''" and now = 7 and u = "''u''"
      and tn = None and ta = None, OF h1 h2 h3 h4] h1 h2
  show ?thesis by blast
qed

subsection \<open>Tool calls\<close>

text \<open>
  C3: a submission with response type \<open>tool_call\<close>, a tool name and tool arguments,
  for an entry whose payload is a dict with countable messages. The stored response has
  \<open>content\<close> null and \<open>tool_calls\<close> a list of one call, whose function name and
  arguments are the two submitted strings themselves, whatever they are: the arguments
  string is stored as it came. The witness takes the name \<open>lookup\<close> and the arguments of
  the spec's example.
\<close>

theorem tool_call_verbatim:
  assumes "s rid = Some entry"
    and "request entry = JObj d"
    and "prompt_tokens d = Inr p"
  shows "\<exists>r. modify_request now u rid ''tool_call'' c (Some tn) (Some ta) s =
               (s(rid \<mapsto> entry\<lparr>response := Some r\<rparr>), Inr (RedirectResponse ''/'')) \<and>
             getpath r [Key ''choices'', Idx 0, Key ''message'', Key ''content''] = Some JNull \<and>
             getpath r [Key ''choices'', Idx 0, Key ''message'', Key ''tool_calls''] =
               Some (JList [JObj [(''id'', JStr (''call_'' @ u)), (''type'', JStr ''function''),
                                  (''function'',
                                     JObj [(''name'', JStr tn), (''arguments'', JStr ta)])]])"
proof -
  let ?msg = "[(''tool_calls'',
                JList [JObj [(''id'', JStr (''call_'' @ u)), (''type'', JStr ''function''),
                             (''function'', JObj [(''name'', JStr tn), (''arguments'', JStr ta)])]]),
             (''content'', JNull)]"
  let ?r = "completion rid now (dict_get d ''model'' (JStr ''gpt-3.5-turbo'')) ?msg p
              (length (str_split tn) + length (str_split ta))"
  have "build_response now u rid (request entry) ''tool_call'' c (Some tn) (Some ta) = Inr ?r"
    using build_response_tool [OF _ assms(3), of "''tool_call''" now u rid c tn ta] assms(2)
    by simp
  with assms(1) have "modify_request now u rid ''tool_call'' c (Some tn) (Some ta) s =
      (s(rid \<mapsto> entry\<lparr>response := Some ?r\<rparr>), Inr (RedirectResponse ''/''))"
    by (rule modify_request_success)
  moreover have "getpath ?r [Key ''choices'', Idx 0, Key ''message'', Key ''content''] = Some JNull"
    by (simp add: completion_def)
  moreover have "getpath ?r [Key ''choices'', Idx 0, Key ''message'', Key ''tool_calls''] =
      Some (JList [JObj [(''id'', JStr (''call_'' @ u)), (''type'', JStr ''function''),
                         (''function'', JObj [(''name'', JStr tn), (''arguments'', JStr ta)])]])"
    by (simp add: completion_def)
  ultimately show ?thesis by blast
qed

theorem tool_call_verbatim_witness:
  "example_store ''r1'' = Some example_entry \<and>
   (\<exists>r. modify_request 7 ''u'' ''r1'' ''tool_call'' None (Some ''lookup'') (Some example_arguments)
           example_store =
           (example_store(''r1'' \<mapsto> example_entry\<lparr>response := Some r\<rparr>),
            Inr (RedirectResponse ''/'')) \<and>
         getpath r [Key ''choices'', Idx 0, Key ''message'', Key ''content''] = Some JNull \<and>
         getpath r [Key ''choices'', Idx 0, Key ''message'', Key ''tool_calls''] =
           Some (JList [JObj [(''id'', JStr ''call_u''), (''type'', JStr ''function''),
                              (''function'',
                                 JObj [(''name'', JStr ''lookup''),
                                       (''arguments'', JStr example_arguments)])]]))"
proof -
  have h1: "example_store ''r1'' = Some example_entry"
    by (simp add: example_store_def)
  have h2: "request example_entry =
     JObj [(''model'', JStr ''gpt-4''),
           (''messages'', JList [JObj [(''role'', JStr ''user''), (''content'', JStr ''hi'')]])]"
    by (simp add: example_entry_def example_payload_def)
  have h3: "prompt_tokens [(''model'', JStr ''gpt-4''),
           (''messages'', JList [JObj [(''role'', JStr ''user''), (''content'', JStr ''hi'')]])] = Inr 1"
    by (simp add: prompt_tokens_def dict_get_def str_split_def isspace_def)
  from tool_call_verbatim [where s = example_store and rid = "''r1''" and now = 7 and u = "''u''"
      and c = None and tn = "''lookup''" and ta = example_arguments, OF h1 h2 h3] h1
  show ?thesis by simp
qed

subsection \<open>Malformed bodies\<close>



subsection \<open>The waiter\<close>

lemma waiter_absent: "s rid = None \<Longrightarrow> waiter rid sched s = Some (s, Inl KeyError)"
  by (simp add: waiter.simps)

lemma waiter_resolved:
  "s rid = Some entry \<Longrightarrow> response entry = Some r \<Longrightarrow>
   waiter rid sched s = Some (s(rid := None), Inr r)"
  by (simp add: waiter.simps)

lemma waiter_pending:
  "s rid = Some entry \<Longrightarrow> response entry = None \<Longrightarrow>
   waiter rid (f # fs) s = waiter rid fs (f s)"
  by (subst waiter.simps) simp

lemma waiter_consumes:
  "waiter rid sched s = Some (s', Inr r) \<Longrightarrow> s' rid = None"
proof (induction sched arbitrary: s)
  case Nil
  then show ?case
    by (subst (asm) waiter.simps) (auto split: option.splits)
next
  case (Cons f fs)
  from Cons.prems show ?case
    by (subst (asm) waiter.simps) (auto split: option.splits dest: Cons.IH)
qed

lemma chat_completions_consumes:
  "chat_completions rid body sched s = Some (s', Inr resp) \<Longrightarrow> s' rid = None"
  by (auto simp: chat_completions_def split: sum.splits option.splits dest: waiter_consumes)

text \<open>
  The handlers of \<open>/r/{id}\<close> never remove an entry: the review page leaves the store
  as it is, and a submission keeps every id that is in the store.
\<close>

lemma get_request_keeps_store: "fst (get_request create rid s) = s"
  by (simp add: get_request_def split: option.splits sum.splits prod.splits)

lemma modify_request_keeps_ids:
  "s k = Some entry \<Longrightarrow> \<exists>entry'. fst (modify_request now u rid rt c tn ta s) k = Some entry'"
  by (simp add: modify_request_def split: option.splits sum.splits)

subsection \<open>The passthrough proxy\<close>

lemma dict_set_fresh: "k \<notin> fst ` set d \<Longrightarrow> dict_set d k v = d @ [(k, v)]"
  by (induction d) auto

lemma comprehension_distinct:
  "distinct (map fst (d @ xs)) \<Longrightarrow> foldl (\<lambda>d p. dict_set d (fst p) (snd p)) d xs = d @ xs"
proof (induction xs arbitrary: d)
  case Nil
  then show ?case by simp
next
  case (Cons x xs)
  from Cons.prems have fresh: "fst x \<notin> fst ` set d" by auto
  from Cons.prems have "distinct (map fst ((d @ [x]) @ xs))" by simp
  then have "foldl (\<lambda>d p. dict_set d (fst p) (snd p)) (d @ [x]) xs = (d @ [x]) @ xs"
    by (rule Cons.IH)
  with fresh show ?case by (simp add: dict_set_fresh)
qed

lemma forward_headers_distinct:
  "distinct (map fst items) \<Longrightarrow>
   forward_headers items = filter (\<lambda>p. str_lower (fst p) \<noteq> ''host'') items"
proof -
  assume "distinct (map fst items)"
  then have "distinct (map fst ([] @ filter (\<lambda>p. str_lower (fst p) \<noteq> ''host'') items))"
    by (simp add: distinct_map_filter)
  then show ?thesis
    unfolding forward_headers_def by (subst comprehension_distinct) simp_all
qed

lemma proxy_relays:
  "send \<lparr>up_method = req_method req, up_path = path, up_query = req_query req,
         up_headers = forward_headers (req_headers req), up_content = req_body req\<rparr> = Inr rp \<Longrightarrow>
   proxy_to_openai send req path =
     Inr (StreamingResponse (resp_chunks rp) (resp_status rp) (resp_headers rp))"
  by (simp add: proxy_to_openai_def)

text \<open>
  C6 on the code: a GET for \<open>/v1/models\<close> whose client sent the header \<open>accept\<close> twice.
  The headers built for upstream hold \<open>accept\<close> once, with the second value; the first
  value is not forwarded, since the comprehension builds a dict. The echoing upstream
  shows what it received.
\<close>

theorem proxy_duplicate_headers:
  "forward_headers (req_headers example_proxy_request) = [(''accept'', ''application/json'')] \<and>
   proxy_to_openai echo_upstream example_proxy_request ''models'' =
     Inr (StreamingResponse [[]] 200 [(''accept'', ''application/json'')])"
  by (simp add: proxy_to_openai_def echo_upstream_def example_proxy_request_def
      forward_headers_def str_lower_def lower_char_def Let_def)

subsection \<open>Unknown ids\<close>

lemma example_interception:
  "chat_completions ''r1'' (Inr example_payload) [resolve_entry ''r1'' example_result] Map.empty =
     Some (Map.empty, Inr (JSONResponse example_result))"
proof -
  let ?e = "\<lparr>request = example_payload, response = None\<rparr>"
  let ?s = "(Map.empty :: store)(''r1'' \<mapsto> ?e)"
  have "waiter ''r1'' [resolve_entry ''r1'' example_result] ?s =
        waiter ''r1'' [] (resolve_entry ''r1'' example_result ?s)"
    by (rule waiter_pending [where entry = ?e]) simp_all
  also have "resolve_entry ''r1'' example_result ?s = ?s(''r1'' \<mapsto> ?e\<lparr>response := Some example_result\<rparr>)"
    by (simp add: resolve_entry_def)
  also have "waiter ''r1'' [] (?s(''r1'' \<mapsto> ?e\<lparr>response := Some example_result\<rparr>)) =
      Some ((?s(''r1'' \<mapsto> ?e\<lparr>response := Some example_result\<rparr>))(''r1'' := None), Inr example_result)"
    by (rule waiter_resolved [where entry = "?e\<lparr>response := Some example_result\<rparr>"]) simp_all
  finally have w: "waiter ''r1'' [resolve_entry ''r1'' example_result] ?s =
      Some ((?s(''r1'' \<mapsto> ?e\<lparr>response := Some example_result\<rparr>))(''r1'' := None),
            Inr example_result)" .
  show ?thesis
    by (simp add: chat_completions_def w)
qed

text \<open>
  C7: for an id that is not in the store, never created or already consumed by its
  waiter, GET /r/{id} and POST /r/{id} both raise the HTTPException with status 404, a
  client error, and the store is unchanged. The witness takes the store left by an
  interception that was resolved and consumed.
\<close>

theorem unknown_id_not_found:
  assumes "s rid = None"
  shows "get_request create rid s = (s, Inl (HTTPException 404)) \<and>
         modify_request now u rid rt c tn ta s = (s, Inl (HTTPException 404)) \<and>
         is_client_error (status_code (Inl (HTTPException 404)))"
  using assms by (simp add: get_request_def modify_request_def is_client_error_def)

theorem unknown_id_not_found_witness:
  "consumed_store ''r1'' = None \<and>
   get_request failing_create ''r1'' consumed_store = (consumed_store, Inl (HTTPException 404)) \<and>
   modify_request 7 ''u'' ''r1'' ''content'' (Some ''late'') None None consumed_store =
     (consumed_store, Inl (HTTPException 404)) \<and>
   is_client_error (status_code (Inl (HTTPException 404)))"
proof -
  have h: "consumed_store ''r1'' = None"
    by (simp add: consumed_store_def example_interception)
  from unknown_id_not_found [where s = consumed_store and rid = "''r1''" and create = failing_create
      and now = 7 and u = "''u''" and rt = "''content''" and c = "Some ''late''" and tn = None
      and ta = None, OF h] h
  show ?thesis by simp
qed

subsection \<open>Failure of the draft call\<close>

lemma copy_field_dict:
  "copy_field (JObj d) k kwargs =
     Inr (case map_of d k of None \<Rightarrow> kwargs | Some v \<Rightarrow> dict_set kwargs k v)"
  by (cases "map_of d k") (simp_all add: copy_field_def)

lemma build_kwargs_dict: "\<exists>kwargs. build_kwargs (JObj d) = Inr kwargs"
  by (simp add: build_kwargs_def copy_field_dict)

text \<open>
  C8: the entry exists, the keyword arguments of the draft call could be built, and the
  call fails with any exception \<open>e\<close>. The handler still answers with the review page, the
  three drafted fields empty and the Content option selected; \<open>e\<close> does not reach the
  result, and the store is unchanged.
\<close>

theorem draft_failure_empty_draft:
  assumes "s rid = Some entry"
    and "build_kwargs (request entry) = Inr kwargs"
    and "create kwargs = Inl e"
  shows "get_request create rid s =
           (s, Inr (HTMLResponse
                  \<lparr>page_request = request entry, page_request_id = rid,
                   page_content_selected = True, page_content = [], page_tool_name = [],
                   page_tool_arguments = []\<rparr>))"
  using assms by (simp add: get_request_def)

theorem draft_failure_empty_draft_witness:
  "example_store ''r1'' = Some example_entry \<and>
   build_kwargs (request example_entry) =
     Inr [(''messages'', JList [JObj [(''role'', JStr ''user''), (''content'', JStr ''hi'')]])] \<and>
   failing_create [(''messages'', JList [JObj [(''role'', JStr ''user''), (''content'', JStr ''hi'')]])] =
     Inl (OtherError ''APIConnectionError'') \<and>
   get_request failing_create ''r1'' example_store =
     (example_store,
      Inr (HTMLResponse
             \<lparr>page_request = request example_entry, page_request_id = ''r1'',
              page_content_selected = True, page_content = [], page_tool_name = [],
              page_tool_arguments = []\<rparr>))"
proof -
  have h1: "example_store ''r1'' = Some example_entry"
    by (simp add: example_store_def)
  have h2: "build_kwargs (request example_entry) =
     Inr [(''messages'', JList [JObj [(''role'', JStr ''user''), (''content'', JStr ''hi'')]])]"
    by (simp add: example_entry_def example_payload_def build_kwargs_def copy_field_def)
  have h3: "failing_create [(''messages'', JList [JObj [(''role'', JStr ''user''), (''content'', JStr ''hi'')]])] =
     Inl (OtherError ''APIConnectionError'')"
    by (simp add: failing_create_def)
  from draft_failure_empty_draft [where s = example_store and rid = "''r1''"
      and create = failing_create, OF h1 h2 h3] h1 h2 h3
  show ?thesis by blast
qed

subsection \<open>The envelope of the response\<close>

text \<open>
  C9: whenever POST /r/{id} succeeds, the entry existed with a dict as payload, and the
  response stored in it has the id \<open>chatcmpl-\<close> followed by the request id, the object
  tag \<open>chat.completion\<close>, \<open>created\<close> equal to the time of the call, \<open>model\<close> equal to
  the payload's model field or to \<open>gpt-3.5-turbo\<close> when the payload has none, and as
  \<open>choices\<close> a list of one choice with index 0 and finish reason \<open>stop\<close>.
\<close>

theorem completion_envelope:
  assumes "modify_request now u rid rt c tn ta s = (s', Inr resp)"
  shows "\<exists>entry d r msg.
           s rid = Some entry \<and> request entry = JObj d \<and>
           s' rid = Some (entry\<lparr>response := Some r\<rparr>) \<and>
           getpath r [Key ''id''] = Some (JStr (''chatcmpl-'' @ rid)) \<and>
           getpath r [Key ''object''] = Some (JStr ''chat.completion'') \<and>
           getpath r [Key ''created''] = Some (JInt now) \<and>
           getpath r [Key ''model''] =
             Some (case map_of d ''model'' of None \<Rightarrow> JStr ''gpt-3.5-turbo'' | Some m \<Rightarrow> m) \<and>
           getpath r [Key ''choices''] =
             Some (JList [JObj [(''index'', JInt 0), (''message'', JObj msg),
                                (''finish_reason'', JStr ''stop'')]])"
proof -
  from assms obtain entry r where e: "s rid = Some entry"
    and b: "build_response now u rid (request entry) rt c tn ta = Inr r"
    and s': "s' = s(rid \<mapsto> entry\<lparr>response := Some r\<rparr>)"
    by (blast dest: modify_request_InrD)
  from b obtain d msg p k where d: "request entry = JObj d"
    and r: "r = completion rid now (dict_get d ''model'' (JStr ''gpt-3.5-turbo'')) msg p k"
    by (blast dest: build_response_InrD)
  have "s' rid = Some (entry\<lparr>response := Some r\<rparr>)"
    using s' by simp
  moreover have "getpath r [Key ''model''] =
      Some (case map_of d ''model'' of None \<Rightarrow> JStr ''gpt-3.5-turbo'' | Some m \<Rightarrow> m)"
    unfolding r by (simp add: completion_def dict_get_def)
  moreover have "getpath r [Key ''id''] = Some (JStr (''chatcmpl-'' @ rid))"
    "getpath r [Key ''object''] = Some (JStr ''chat.completion'')"
    "getpath r [Key ''created''] = Some (JInt now)"
    "getpath r [Key ''choices''] =
       Some (JList [JObj [(''index'', JInt 0), (''message'', JObj msg),
                          (''finish_reason'', JStr ''stop'')]])"
    unfolding r by (simp_all add: completion_def)
  ultimately show ?thesis using e d by blast
qed

theorem completion_envelope_witness:
  "modify_request 1 ''u1'' ''r1'' ''content'' (Some ''first'') None None example_store =
     (fst first_resolve, Inr (RedirectResponse ''/'')) \<and>
   (\<exists>entry d r msg.
      example_store ''r1'' = Some entry \<and> request entry = JObj d \<and>
      fst first_resolve ''r1'' = Some (entry\<lparr>response := Some r\<rparr>) \<and>
      getpath r [Key ''id''] = Some (JStr (''chatcmpl-'' @ ''r1'')) \<and>
      getpath r [Key ''object''] = Some (JStr ''chat.completion'') \<and>
      getpath r [Key ''created''] = Some (JInt 1) \<and>
      getpath r [Key ''model''] =
        Some (case map_of d ''model'' of None \<Rightarrow> JStr ''gpt-3.5-turbo'' | Some m \<Rightarrow> m) \<and>
      getpath r [Key ''choices''] =
        Some (JList [JObj [(''index'', JInt 0), (''message'', JObj msg),
                           (''finish_reason'', JStr ''stop'')]]))"
proof -
  have h: "modify_request 1 ''u1'' ''r1'' ''content'' (Some ''first'') None None example_store =
     (fst first_resolve, Inr (RedirectResponse ''/''))"
    by (simp add: prod_eq_iff first_resolve_def modify_request_def example_store_def
        example_entry_def example_payload_def build_response_def prompt_tokens_def dict_get_def
        str_split_def isspace_def)
  from completion_envelope [OF h] h show ?thesis by blast
qed

subsection \<open>Other response types\<close>

text \<open>
  C10: a response type other than the string \<open>content\<close> takes the tool-call branch.
  With a tool name and tool arguments the submission is accepted and the stored response
  has \<open>content\<close> null and one tool call built from them; and for any form fields the
  handler does exactly what it does for the response type \<open>tool_call\<close>, so no value of
  the response type is refused for being unknown.
\<close>

theorem other_response_type_is_tool_call:
  assumes "rt \<noteq> ''content''"
    and "s rid = Some entry"
    and "request entry = JObj d"
    and "prompt_tokens d = Inr p"
  shows "(\<exists>r. modify_request now u rid rt c (Some tn) (Some ta) s =
                (s(rid \<mapsto> entry\<lparr>response := Some r\<rparr>), Inr (RedirectResponse ''/'')) \<and>
              getpath r [Key ''choices'', Idx 0, Key ''message'', Key ''content''] = Some JNull \<and>
              getpath r [Key ''choices'', Idx 0, Key ''message'', Key ''tool_calls''] =
                Some (JList [JObj [(''id'', JStr (''call_'' @ u)), (''type'', JStr ''function''),
                                   (''function'',
                                      JObj [(''name'', JStr tn), (''arguments'', JStr ta)])]])) \<and>
         modify_request now u rid rt c' tn' ta' s =
           modify_request now u rid ''tool_call'' c' tn' ta' s"
proof -
  let ?msg = "[(''tool_calls'',
                JList [JObj [(''id'', JStr (''call_'' @ u)), (''type'', JStr ''function''),
                             (''function'', JObj [(''name'', JStr tn), (''arguments'', JStr ta)])]]),
             (''content'', JNull)]"
  let ?r = "completion rid now (dict_get d ''model'' (JStr ''gpt-3.5-turbo'')) ?msg p
              (length (str_split tn) + length (str_split ta))"
  have "build_response now u rid (request entry) rt c (Some tn) (Some ta) = Inr ?r"
    using build_response_tool [OF assms(1) assms(4), of now u rid c tn ta] assms(3)
    by simp
  with assms(2) have "modify_request now u rid rt c (Some tn) (Some ta) s =
      (s(rid \<mapsto> entry\<lparr>response := Some ?r\<rparr>), Inr (RedirectResponse ''/''))"
    by (rule modify_request_success)
  moreover have "getpath ?r [Key ''choices'', Idx 0, Key ''message'', Key ''content''] = Some JNull"
    by (simp add: completion_def)
  moreover have "getpath ?r [Key ''choices'', Idx 0, Key ''message'', Key ''tool_calls''] =
      Some (JList [JObj [(''id'', JStr (''call_'' @ u)), (''type'', JStr ''function''),
                         (''function'', JObj [(''name'', JStr tn), (''arguments'', JStr ta)])]])"
    by (simp add: completion_def)
  moreover have "modify_request now u rid rt c' tn' ta' s =
      modify_request now u rid ''tool_call'' c' tn' ta' s"
    using assms(1)
    by (simp add: modify_request_def build_response_rt [of rt] split: option.splits)
  ultimately show ?thesis by blast
qed

theorem other_response_type_is_tool_call_witness:
  "''banana'' \<noteq> ''content'' \<and> example_store ''r1'' = Some example_entry \<and>
   (\<exists>r. modify_request 7 ''u'' ''r1'' ''banana'' (Some ''ignored'') (Some ''lookup'')
           (Some example_arguments) example_store =
           (example_store(''r1'' \<mapsto> example_entry\<lparr>response := Some r\<rparr>),
            Inr (RedirectResponse ''/'')) \<and>
         getpath r [Key ''choices'', Idx 0, Key ''message'', Key ''content''] = Some JNull \<and>
         getpath r [Key ''choices'', Idx 0, Key ''message'', Key ''tool_calls''] =
           Some (JList [JObj [(''id'', JStr ''call_u''), (''type'', JStr ''function''),
                              (''function'',
                                 JObj [(''name'', JStr ''lookup''),
                                       (''arguments'', JStr example_arguments)])]])) \<and>
   modify_request 7 ''u'' ''r1'' ''banana'' None None None example_store =
     modify_request 7 ''u'' ''r1'' ''tool_call'' None None None example_store"
proof -
  have h0: "''banana'' \<noteq> ''content''" by simp
  have h1: "example_store ''r1'' = Some example_entry"
    by (simp add: example_store_def)
  have h2: "request example_entry =
     JObj [(''model'', JStr ''gpt-4''),
           (''messages'', JList [JObj [(''role'', JStr ''user''), (''content'', JStr ''hi'')]])]"
    by (simp add: example_entry_def example_payload_def)
  have h3: "prompt_tokens [(''model'', JStr ''gpt-4''),
           (''messages'', JList [JObj [(''role'', JStr ''user''), (''content'', JStr ''hi'')]])] = Inr 1"
    by (simp add: prompt_tokens_def dict_get_def str_split_def isspace_def)
  from other_response_type_is_tool_call [where s = example_store and rid = "''r1''" and now = 7
      and u = "''u''" and c = "Some ''ignored''" and tn = "''lookup''" and ta = example_arguments
      and c' = None and tn' = None and ta' = None, OF h0 h1 h2 h3] h1
  show ?thesis by simp
qed

end
